theory Spec2Isabelle
  imports Main
begin

section \<open>JavaScript values used by the services\<close>

text \<open>
  A TypeScript \<open>string\<close> is modelled as a HOL \<open>string\<close>; a value that may be
  \<open>undefined\<close> or \<open>null\<close> is an \<open>option\<close>.  The conditions of the source test
  truthiness: \<open>undefined\<close>, \<open>null\<close> and the empty string are falsy, every other string
  is truthy.
\<close>

definition truthy :: "string option \<Rightarrow> bool" where
  "truthy v = (case v of None \<Rightarrow> False | Some s \<Rightarrow> s \<noteq> [])"

text \<open>\<open>a || d\<close> on strings: the left operand when it is truthy, the default otherwise.\<close>

definition or_default :: "string option \<Rightarrow> string \<Rightarrow> string" where
  "or_default v d = (if truthy v then the v else d)"

text \<open>
  \<open>String.prototype.split(sep)\<close> for a separator of one character: the segments between
  the occurrences of the separator, empty segments kept, so that the result is never
  empty (\<open>''''.split(' ')\<close> is \<open>['''']\<close>).
\<close>

fun split_on :: "char \<Rightarrow> string \<Rightarrow> string list" where
  "split_on sep [] = [[]]"
| "split_on sep (c # cs) =
     (if c = sep then [] # split_on sep cs
      else (case split_on sep cs of
              [] \<Rightarrow> [[c]]
            | w # ws \<Rightarrow> (c # w) # ws))"

text \<open>Array indexing \<open>xs[i]\<close>: \<open>undefined\<close> out of range.\<close>

definition at_index :: "'a list \<Rightarrow> nat \<Rightarrow> 'a option" where
  "at_index xs i = (if i < length xs then Some (xs ! i) else None)"

text \<open>
  \<open>/[...]/.test(s)\<close> for a regular expression that is one character class: some
  character of \<open>s\<close> belongs to the class.
\<close>

definition regex_test :: "(char \<Rightarrow> bool) \<Rightarrow> string \<Rightarrow> bool" where
  "regex_test cls s = list_ex cls s"

definition lowercase_class :: "char \<Rightarrow> bool" where
  "lowercase_class c = (97 \<le> (of_char c :: nat) \<and> (of_char c :: nat) \<le> 122)"

definition uppercase_class :: "char \<Rightarrow> bool" where
  "uppercase_class c = (65 \<le> (of_char c :: nat) \<and> (of_char c :: nat) \<le> 90)"

definition digit_class :: "char \<Rightarrow> bool" where
  "digit_class c = (48 \<le> (of_char c :: nat) \<and> (of_char c :: nat) \<le> 57)"

definition special_class :: "char \<Rightarrow> bool" where
  "special_class c = (c \<in> set ''@$!%*?&'')"


section \<open>PasswordService\<close>

record ValidationResult =
  isValid :: bool
  errors :: "string list"

text \<open>\<open>errors.push(m)\<close> under a condition; the list keeps the order of the pushes.\<close>

definition push_if :: "bool \<Rightarrow> string \<Rightarrow> string list \<Rightarrow> string list" where
  "push_if b m es = (if b then es @ [m] else es)"

definition validatePasswordStrength :: "string \<Rightarrow> ValidationResult" where
  "validatePasswordStrength password =
     (let es = [];
          es = push_if (length password < 8)
                 ''Password must be at least 8 characters long'' es;
          es = push_if (\<not> regex_test lowercase_class password)
                 ''Password must contain at least one lowercase letter'' es;
          es = push_if (\<not> regex_test uppercase_class password)
                 ''Password must contain at least one uppercase letter'' es;
          es = push_if (\<not> regex_test digit_class password)
                 ''Password must contain at least one digit'' es;
          es = push_if (\<not> regex_test special_class password)
                 ''Password must contain at least one special character (@$!%*?&)'' es
      in \<lparr> isValid = (length es = 0), errors = es \<rparr>)"


section \<open>Exceptions\<close>

text \<open>
  The exceptions the services throw.  The first six are the framework's HTTP exceptions,
  each with its message (a weak-password \<open>BadRequestException\<close> also carries the list
  of violated rules).  The last three are errors raised by the packages underneath:
  \<open>jsonwebtoken\<close>, the Prisma client (with its \<open>code\<close> property) and a plain
  \<open>Error\<close>.
\<close>

datatype jwt_error = SignError | JwtMalformed | InvalidSignature | TokenExpired

datatype exception =
    UnauthorizedException string
  | ForbiddenException string
  | ConflictException string
  | BadRequestException string "string list"
  | InternalServerErrorException string
  | NotFoundException string
  | JsonWebTokenError jwt_error
  | PrismaClientError string
  | Error string

text \<open>The HTTP status of the response; an error that is no HTTP exception gives 500.\<close>

fun getStatus :: "exception \<Rightarrow> nat" where
  "getStatus (UnauthorizedException _) = 401"
| "getStatus (ForbiddenException _) = 403"
| "getStatus (ConflictException _) = 409"
| "getStatus (BadRequestException _ _) = 400"
| "getStatus (NotFoundException _) = 404"
| "getStatus _ = 500"

text \<open>\<open>error instanceof C\<close> and \<open>error.code\<close>.\<close>

fun isUnauthorized :: "exception \<Rightarrow> bool" where
  "isUnauthorized (UnauthorizedException _) = True"
| "isUnauthorized _ = False"

fun isConflict :: "exception \<Rightarrow> bool" where
  "isConflict (ConflictException _) = True"
| "isConflict _ = False"

fun isBadRequest :: "exception \<Rightarrow> bool" where
  "isBadRequest (BadRequestException _ _) = True"
| "isBadRequest _ = False"

fun error_code :: "exception \<Rightarrow> string option" where
  "error_code (PrismaClientError c) = Some c"
| "error_code _ = None"


section \<open>Data model\<close>

datatype UserRole = admin | customer

fun role_name :: "UserRole \<Rightarrow> string" where
  "role_name admin = ''admin''"
| "role_name customer = ''customer''"

record JwtPayload =
  sub :: string
  email :: string
  role :: string
  iat :: "int option"
  exp :: "int option"

record TokenPair =
  access_token :: string
  refresh_token :: string

text \<open>What the authentication guard attaches to the request as \<open>request.user\<close>.\<close>

record RequestUser =
  user_id :: string
  user_email :: string
  user_role :: "string option"

record request =
  authorization :: "string option"
  user :: "RequestUser option"

text \<open>A row of \<open>public.profiles\<close> and a row of \<open>auth.users\<close>.\<close>

record profiles =
  profile_id :: string
  profile_email :: string
  profile_role :: "UserRole option"
  full_name :: "string option"
  avatar_url :: "string option"
  updated_at :: "int option"

record users =
  auth_id :: string
  auth_email :: "string option"
  encrypted_password :: "string option"
  email_confirmed_at :: "int option"
  created_at :: "int option"
  auth_updated_at :: "int option"

record RegisterDto =
  reg_email :: string
  reg_password :: string
  reg_full_name :: string

record LoginDto =
  login_email :: string
  login_password :: string

record CreateUserDto =
  new_id :: string
  new_email :: string
  new_full_name :: string
  new_role :: "UserRole option"

record ResponseUser =
  resp_id :: string
  resp_email :: string
  resp_role :: "UserRole option"
  resp_full_name :: string

record AuthResponse = TokenPair +
  user_data :: ResponseUser


section \<open>The environment of the services\<close>

text \<open>
  The packages the services call are not part of the repository.  They are parameters of
  the model, and a theorem that needs one of their properties states it as a hypothesis.
  \<^item> \<open>jwt_encode claims signature\<close> is the compact serialisation of a token and
    \<open>jwt_decode\<close> reads one back (\<open>None\<close> for a string that is no well-formed token);
    \<open>hmac secret claims\<close> is the signature of the encoded claims under a secret.
  \<^item> \<open>ms_timespan\<close> reads a time span such as \<open>15m\<close> in seconds (\<open>None\<close> when it
    cannot be read).
  \<^item> \<open>bcrypt_hash seed password rounds\<close> and \<open>bcrypt_compare plain hashed\<close> are
    \<open>None\<close> when the package throws; the seed stands for the random salt.
  \<^item> \<open>uuid_of seed\<close> is the value of \<open>randomUUID()\<close>.
\<close>

record packages =
  jwt_encode :: "JwtPayload \<Rightarrow> string \<Rightarrow> string"
  jwt_decode :: "string \<Rightarrow> (JwtPayload \<times> string) option"
  hmac :: "string \<Rightarrow> JwtPayload \<Rightarrow> string"
  ms_timespan :: "string \<Rightarrow> int option"
  bcrypt_hash :: "nat \<Rightarrow> string \<Rightarrow> nat \<Rightarrow> string option"
  bcrypt_compare :: "string \<Rightarrow> string \<Rightarrow> bool option"
  uuid_of :: "nat \<Rightarrow> string"

text \<open>The values \<open>configService.get\<close> returns for the three keys under \<open>jwt\<close>.\<close>

record jwt_config =
  jwt_secret :: "string option"
  accessTokenExpiration :: "string option"
  refreshTokenExpiration :: "string option"

text \<open>
  The store behind the Prisma client: the two tables, whether \<open>auth.users\<close> enforces
  unique emails, and a schedule of faults.  Every query takes the head of the schedule;
  \<open>Some code\<close> makes that query fail with a client error of that code, \<open>None\<close> (or an
  exhausted schedule) lets it run.
\<close>

record database =
  users_table :: "users list"
  profiles_table :: "profiles list"
  users_email_unique :: bool
  faults :: "string option list"

text \<open>
  The world a request runs in: the packages, the configuration, the clock (seconds since
  the epoch), the source of randomness and the store.
\<close>

record world =
  lib :: packages
  config :: jwt_config
  clock :: int
  rng :: nat
  database :: database

text \<open>
  An asynchronous method that may reject and may change the world is a function from the
  world to its outcome (\<open>Inl\<close> the exception thrown) and the world afterwards.
\<close>

type_synonym 'a action = "world \<Rightarrow> (exception + 'a) \<times> world"

definition ret :: "'a \<Rightarrow> 'a action" where
  "ret x = (\<lambda>w. (Inr x, w))"

definition throw :: "exception \<Rightarrow> 'a action" where
  "throw e = (\<lambda>w. (Inl e, w))"

text \<open>\<open>const x = await m; ...\<close>: a rejection of \<open>m\<close> skips the rest.\<close>

definition andThen :: "'a action \<Rightarrow> ('a \<Rightarrow> 'b action) \<Rightarrow> 'b action" where
  "andThen m f = (\<lambda>w. case m w of
                         (Inl e, w') \<Rightarrow> (Inl e, w')
                       | (Inr x, w') \<Rightarrow> f x w')"

text \<open>\<open>try { m } catch (error) { h }\<close>: the handler runs in the world the body left.\<close>

definition tryCatch :: "'a action \<Rightarrow> (exception \<Rightarrow> 'a action) \<Rightarrow> 'a action" where
  "tryCatch m h = (\<lambda>w. case m w of
                          (Inl e, w') \<Rightarrow> h e w'
                        | (Inr x, w') \<Rightarrow> (Inr x, w'))"

text \<open>A method that only reads the world.\<close>

definition reading :: "(world \<Rightarrow> exception + 'a) \<Rightarrow> 'a action" where
  "reading f = (\<lambda>w. (f w, w))"


section \<open>The jsonwebtoken package\<close>

text \<open>
  \<open>jwt.sign(payload, secret, {expiresIn})\<close>: fails when the time span cannot be read or
  the payload already has an \<open>exp\<close>; otherwise stamps \<open>iat\<close> (the payload's own, or the
  clock) and \<open>exp = iat + span\<close>, and serialises the claims with their signature.
\<close>

definition jwt_sign ::
  "packages \<Rightarrow> JwtPayload \<Rightarrow> string \<Rightarrow> string \<Rightarrow> int \<Rightarrow> jwt_error + string" where
  "jwt_sign L payload secret expiresIn now =
     (case ms_timespan L expiresIn of
        None \<Rightarrow> Inl SignError
      | Some span \<Rightarrow>
          (case exp payload of
             Some _ \<Rightarrow> Inl SignError
           | None \<Rightarrow>
               (let timestamp = (case iat payload of Some t \<Rightarrow> t | None \<Rightarrow> now);
                    claims = payload\<lparr> iat := Some timestamp, exp := Some (timestamp + span) \<rparr>
                in Inr (jwt_encode L claims (hmac L secret claims)))))"

text \<open>
  \<open>jwt.verify(token, secret)\<close>: the token must be well formed, its signature must be the
  one of its claims under the secret, and a token with an \<open>exp\<close> is expired once the clock
  has reached it.
\<close>

definition jwt_verify ::
  "packages \<Rightarrow> string \<Rightarrow> string \<Rightarrow> int \<Rightarrow> jwt_error + JwtPayload" where
  "jwt_verify L token secret now =
     (case jwt_decode L token of
        None \<Rightarrow> Inl JwtMalformed
      | Some (claims, signature) \<Rightarrow>
          if signature \<noteq> hmac L secret claims then Inl InvalidSignature
          else (case exp claims of
                  None \<Rightarrow> Inr claims
                | Some e \<Rightarrow> if e \<le> now then Inl TokenExpired else Inr claims))"


section \<open>JwtService\<close>

definition generateAccessToken :: "world \<Rightarrow> JwtPayload \<Rightarrow> exception + string" where
  "generateAccessToken w payload =
     (let secret = or_default (jwt_secret (config w)) ''default-secret'';
          expiresIn = or_default (accessTokenExpiration (config w)) ''15m''
      in case jwt_sign (lib w) payload secret expiresIn (clock w) of
           Inl err \<Rightarrow> Inl (JsonWebTokenError err)
         | Inr token \<Rightarrow> Inr token)"

definition generateRefreshToken :: "world \<Rightarrow> JwtPayload \<Rightarrow> exception + string" where
  "generateRefreshToken w payload =
     (let secret = or_default (jwt_secret (config w)) ''default-secret'';
          expiresIn = or_default (refreshTokenExpiration (config w)) ''7d''
      in case jwt_sign (lib w) payload secret expiresIn (clock w) of
           Inl err \<Rightarrow> Inl (JsonWebTokenError err)
         | Inr token \<Rightarrow> Inr token)"

text \<open>\<open>Promise.all\<close> of the two: the pair when both resolve, the rejection otherwise.\<close>

definition generateTokens :: "world \<Rightarrow> JwtPayload \<Rightarrow> exception + TokenPair" where
  "generateTokens w payload =
     (let jwtPayload = \<lparr> sub = sub payload, email = email payload, role = role payload,
                         iat = None, exp = None \<rparr>
      in case generateAccessToken w jwtPayload of
           Inl err \<Rightarrow> Inl err
         | Inr a \<Rightarrow>
             (case generateRefreshToken w jwtPayload of
                Inl err \<Rightarrow> Inl err
              | Inr r \<Rightarrow> Inr \<lparr> access_token = a, refresh_token = r \<rparr>))"

definition verifyAccessToken :: "world \<Rightarrow> string \<Rightarrow> exception + JwtPayload" where
  "verifyAccessToken w token =
     (let secret = or_default (jwt_secret (config w)) ''default-secret''
      in case jwt_verify (lib w) token secret (clock w) of
           Inl err \<Rightarrow> Inl (UnauthorizedException ''Invalid or expired access token'')
         | Inr payload \<Rightarrow>
             Inr \<lparr> sub = sub payload, email = email payload, role = role payload,
                   iat = iat payload, exp = exp payload \<rparr>)"

definition verifyRefreshToken :: "world \<Rightarrow> string \<Rightarrow> exception + JwtPayload" where
  "verifyRefreshToken w token =
     (let secret = or_default (jwt_secret (config w)) ''default-secret''
      in case jwt_verify (lib w) token secret (clock w) of
           Inl err \<Rightarrow> Inl (UnauthorizedException ''Invalid or expired refresh token'')
         | Inr payload \<Rightarrow>
             Inr \<lparr> sub = sub payload, email = email payload, role = role payload,
                   iat = iat payload, exp = exp payload \<rparr>)"

definition extractTokenFromHeader :: "string \<Rightarrow> string option" where
  "extractTokenFromHeader authHeader =
     (if authHeader = [] then None
      else
        (let parts = split_on CHR '' '' authHeader;
             type = at_index parts 0;
             token = at_index parts 1
         in if type \<noteq> Some ''Bearer'' \<or> \<not> truthy token then None else token))"

definition JwtService_refreshTokens :: "world \<Rightarrow> string \<Rightarrow> exception + TokenPair" where
  "JwtService_refreshTokens w refreshToken =
     (case verifyRefreshToken w refreshToken of
        Inl err \<Rightarrow> Inl err
      | Inr payload \<Rightarrow>
          generateTokens w \<lparr> sub = sub payload, email = email payload, role = role payload,
                             iat = None, exp = None \<rparr>)"


section \<open>Guards\<close>

text \<open>
  \<open>RolesGuard.canActivate\<close>: \<open>requiredRoles\<close> is the metadata the \<open>Roles\<close> decorator left on
  the route (\<open>None\<close> when the route has none), \<open>request.user\<close> what an earlier guard
  attached.
\<close>

definition RolesGuard_canActivate ::
  "UserRole list option \<Rightarrow> request \<Rightarrow> exception + bool" where
  "RolesGuard_canActivate requiredRoles req =
     (if requiredRoles = None \<or> length (the requiredRoles) = 0 then Inr True
      else
        (case user req of
           None \<Rightarrow> Inl (UnauthorizedException ''User not authenticated'')
         | Some u \<Rightarrow>
             (let userRole = user_role u
              in if \<not> truthy userRole then Inl (ForbiddenException ''User role not found'')
                 else
                   (let hasRequiredRole = (the userRole \<in> set (map role_name (the requiredRoles)))
                    in if \<not> hasRequiredRole
                       then Inl (ForbiddenException ''Insufficient permissions'')
                       else Inr True))))"

text \<open>
  \<open>JwtAuthGuard.canActivate\<close>: the result is the request with the identity attached
  (the guard's \<open>true\<close>) or the exception thrown.
\<close>

definition JwtAuthGuard_canActivate :: "world \<Rightarrow> request \<Rightarrow> exception + request" where
  "JwtAuthGuard_canActivate w req =
     (let authHeader = authorization req
      in if \<not> truthy authHeader
         then Inl (UnauthorizedException ''Authorization header is missing'')
         else
           (let token = extractTokenFromHeader (the authHeader)
            in if \<not> truthy token
               then Inl (UnauthorizedException ''Invalid authorization header format'')
               else
                 (case verifyAccessToken w (the token) of
                    Inr payload \<Rightarrow>
                      Inr (req\<lparr> user := Some \<lparr> user_id = sub payload,
                                               user_email = email payload,
                                               user_role = Some (role payload) \<rparr> \<rparr>)
                  | Inl error \<Rightarrow>
                      if isUnauthorized error then Inl error
                      else Inl (UnauthorizedException ''Invalid or expired token''))))"


section \<open>The Prisma client\<close>

text \<open>Taking the next entry of the fault schedule.\<close>

definition next_fault :: "string option action" where
  "next_fault = (\<lambda>w.
     (case faults (database w) of
        [] \<Rightarrow> (Inr None, w)
      | f # fs \<Rightarrow> (Inr f, w\<lparr> database := (database w)\<lparr> faults := fs \<rparr> \<rparr>)))"

text \<open>A query: it fails when the schedule says so and runs on the store otherwise.\<close>

definition query :: "'a action \<Rightarrow> 'a action" where
  "query run = andThen next_fault (\<lambda>f.
     case f of
       Some code \<Rightarrow> throw (PrismaClientError code)
     | None \<Rightarrow> run)"

text \<open>\<open>prisma.profiles.findUnique({ where })\<close> on a unique column.\<close>

definition profiles_findUnique :: "(profiles \<Rightarrow> bool) \<Rightarrow> profiles option action" where
  "profiles_findUnique wh = query (\<lambda>w. (Inr (find wh (profiles_table (database w))), w))"

text \<open>\<open>prisma.users.findFirst({ where: { email } })\<close>.\<close>

definition users_findFirst :: "string \<Rightarrow> users option action" where
  "users_findFirst e =
     query (\<lambda>w. (Inr (find (\<lambda>u. auth_email u = Some e) (users_table (database w))), w))"

text \<open>
  \<open>prisma.users.create({ data })\<close>: code \<open>P2002\<close> when the primary key (or the email,
  where the table enforces it) is taken; otherwise the row is appended.
\<close>

definition users_create :: "users \<Rightarrow> users action" where
  "users_create row = query (\<lambda>w.
     (let db = database w
      in if (\<exists>u \<in> set (users_table db).
               auth_id u = auth_id row
               \<or> (users_email_unique db \<and> auth_email u \<noteq> None \<and> auth_email u = auth_email row))
         then (Inl (PrismaClientError ''P2002''), w)
         else (Inr row, w\<lparr> database := db\<lparr> users_table := users_table db @ [row] \<rparr> \<rparr>)))"

text \<open>\<open>prisma.profiles.create({ data })\<close>: \<open>id\<close> and \<open>email\<close> are unique.\<close>

definition profiles_create :: "profiles \<Rightarrow> profiles action" where
  "profiles_create row = query (\<lambda>w.
     (let db = database w
      in if (\<exists>p \<in> set (profiles_table db).
               profile_id p = profile_id row \<or> profile_email p = profile_email row)
         then (Inl (PrismaClientError ''P2002''), w)
         else (Inr row, w\<lparr> database := db\<lparr> profiles_table := profiles_table db @ [row] \<rparr> \<rparr>)))"

text \<open>\<open>new Date()\<close> and \<open>randomUUID()\<close>.\<close>

definition randomUUID :: "string action" where
  "randomUUID = (\<lambda>w. (Inr (uuid_of (lib w) (rng w)), w\<lparr> rng := rng w + 1 \<rparr>))"


section \<open>UsersService\<close>

definition findByEmail :: "string \<Rightarrow> profiles option action" where
  "findByEmail e =
     tryCatch (profiles_findUnique (\<lambda>p. profile_email p = e))
              (\<lambda>error. ret None)"

definition findById :: "string \<Rightarrow> profiles option action" where
  "findById i =
     tryCatch (profiles_findUnique (\<lambda>p. profile_id p = i))
              (\<lambda>error. ret None)"

definition UsersService_create :: "CreateUserDto \<Rightarrow> profiles action" where
  "UsersService_create userData =
     tryCatch
       (andThen (findByEmail (new_email userData)) (\<lambda>existingUser.
          if existingUser \<noteq> None
          then throw (ConflictException ''User with this email already exists'')
          else
            andThen (\<lambda>w. profiles_create
                       \<lparr> profile_id = new_id userData,
                         profile_email = new_email userData,
                         profile_role = Some (case new_role userData of
                                                None \<Rightarrow> customer | Some r \<Rightarrow> r),
                         full_name = Some (new_full_name userData),
                         avatar_url = None,
                         updated_at = Some (clock w) \<rparr> w)
                    (\<lambda>user. ret user)))
       (\<lambda>error.
          if isConflict error then throw error
          else if error_code error = Some ''P2002''
          then throw (ConflictException ''User with this email already exists'')
          else throw error)"


section \<open>PasswordService: hashing\<close>

definition hashPassword :: "string \<Rightarrow> string action" where
  "hashPassword password = (\<lambda>w.
     (case bcrypt_hash (lib w) (rng w) password 12 of
        None \<Rightarrow> (Inl (Error ''Password hashing failed''), w\<lparr> rng := rng w + 1 \<rparr>)
      | Some h \<Rightarrow> (Inr h, w\<lparr> rng := rng w + 1 \<rparr>)))"

definition comparePasswords :: "string \<Rightarrow> string \<Rightarrow> bool action" where
  "comparePasswords plainPassword hashedPassword = reading (\<lambda>w.
     (case bcrypt_compare (lib w) plainPassword hashedPassword of
        None \<Rightarrow> Inl (Error ''Password comparison failed'')
      | Some b \<Rightarrow> Inr b))"


section \<open>AuthService\<close>

text \<open>\<open>user.role || 'customer'\<close>.\<close>

definition role_or_customer :: "UserRole option \<Rightarrow> string" where
  "role_or_customer r = (case r of None \<Rightarrow> ''customer'' | Some x \<Rightarrow> role_name x)"

text \<open>The response both \<open>register\<close> and \<open>login\<close> build from the profile and its tokens.\<close>

definition auth_response :: "profiles \<Rightarrow> TokenPair \<Rightarrow> AuthResponse" where
  "auth_response u tokens =
     \<lparr> access_token = access_token tokens,
       refresh_token = refresh_token tokens,
       user_data = \<lparr> resp_id = profile_id u,
                     resp_email = profile_email u,
                     resp_role = profile_role u,
                     resp_full_name = (case full_name u of None \<Rightarrow> [] | Some n \<Rightarrow> n) \<rparr> \<rparr>"

text \<open>
  The part of \<open>register\<close> after its two checks: hash the password, create the row of
  \<open>auth.users\<close>, create the profile, issue the tokens.
\<close>

definition register_create :: "RegisterDto \<Rightarrow> AuthResponse action" where
  "register_create registerDto =
     andThen (hashPassword (reg_password registerDto)) (\<lambda>hashedPassword.
     andThen randomUUID (\<lambda>userId.
     andThen (\<lambda>w. users_create
                \<lparr> auth_id = userId,
                  auth_email = Some (reg_email registerDto),
                  encrypted_password = Some hashedPassword,
                  email_confirmed_at = Some (clock w),
                  created_at = Some (clock w),
                  auth_updated_at = Some (clock w) \<rparr> w) (\<lambda>_.
     andThen (UsersService_create
                \<lparr> new_id = userId,
                  new_email = reg_email registerDto,
                  new_full_name = reg_full_name registerDto,
                  new_role = Some customer \<rparr>) (\<lambda>u.
     andThen (reading (\<lambda>w. generateTokens w
                \<lparr> sub = profile_id u,
                  email = profile_email u,
                  role = role_or_customer (profile_role u),
                  iat = None, exp = None \<rparr>)) (\<lambda>tokens.
     ret (auth_response u tokens))))))"

text \<open>The body of the \<open>try\<close> block of \<open>register\<close>.\<close>

definition register_try :: "RegisterDto \<Rightarrow> AuthResponse action" where
  "register_try registerDto =
     (let passwordValidation = validatePasswordStrength (reg_password registerDto)
      in if \<not> isValid passwordValidation
         then throw (BadRequestException ''Password does not meet strength requirements''
                       (errors passwordValidation))
         else
           andThen (findByEmail (reg_email registerDto)) (\<lambda>existingUser.
             if existingUser \<noteq> None
             then throw (ConflictException ''User with this email already exists'')
             else register_create registerDto))"

definition register :: "RegisterDto \<Rightarrow> AuthResponse action" where
  "register registerDto =
     tryCatch (register_try registerDto)
       (\<lambda>error.
          if isConflict error \<or> isBadRequest error then throw error
          else if error_code error = Some ''P2002''
          then throw (ConflictException ''User with this email already exists'')
          else throw (InternalServerErrorException ''Registration failed. Please try again.''))"

definition validateUser :: "string \<Rightarrow> string \<Rightarrow> profiles option action" where
  "validateUser e password =
     tryCatch
       (andThen (users_findFirst e) (\<lambda>authUser.
          if authUser = None \<or> \<not> truthy (encrypted_password (the authUser))
          then ret None
          else
            andThen (comparePasswords password (the (encrypted_password (the authUser))))
              (\<lambda>isPasswordValid.
                 if \<not> isPasswordValid then ret None
                 else andThen (findByEmail e) (\<lambda>userProfile. ret userProfile))))
       (\<lambda>error. ret None)"

definition login :: "LoginDto \<Rightarrow> AuthResponse action" where
  "login loginDto =
     tryCatch
       (andThen (findByEmail (login_email loginDto)) (\<lambda>u.
          (let invalidCredentialsError = UnauthorizedException ''Invalid credentials''
           in if u = None then throw invalidCredentialsError
              else
                andThen (validateUser (login_email loginDto) (login_password loginDto))
                  (\<lambda>isValidUser.
                     if isValidUser = None then throw invalidCredentialsError
                     else
                       andThen (reading (\<lambda>w. generateTokens w
                                  \<lparr> sub = profile_id (the u),
                                    email = profile_email (the u),
                                    role = role_or_customer (profile_role (the u)),
                                    iat = None, exp = None \<rparr>)) (\<lambda>tokens.
                       ret (auth_response (the u) tokens))))))
       (\<lambda>error.
          if isUnauthorized error then throw error
          else throw (InternalServerErrorException
                        ''Authentication failed. Please try again.''))"

definition refreshTokens :: "string \<Rightarrow> TokenPair action" where
  "refreshTokens refreshToken =
     tryCatch (reading (\<lambda>w. JwtService_refreshTokens w refreshToken))
       (\<lambda>error.
          if isUnauthorized error then throw error
          else throw (InternalServerErrorException
                        ''Token refresh failed. Please login again.''))"


section \<open>A test double for the packages\<close>

text \<open>
  Concrete packages on which the model can be run.  A string is serialised as its length
  in unary, a \<open>0\<close>, and its characters; a token is the serialisation of the five claims
  and of the signature, one after the other.  The signature of the double is the secret
  followed by the subject, bcrypt's hash is the password behind a prefix, and a time span
  is read from a table.
\<close>

definition enc_str :: "string \<Rightarrow> string" where
  "enc_str s = replicate (length s) CHR ''1'' @ CHR ''0'' # s"

definition dec_str :: "string \<Rightarrow> (string \<times> string) option" where
  "dec_str t =
     (let n = length (takeWhile (\<lambda>c. c = CHR ''1'') t);
          body = drop (Suc n) t
      in if n < length t \<and> n \<le> length body then Some (take n body, drop n body) else None)"

definition enc_time :: "int option \<Rightarrow> string" where
  "enc_time v =
     (case v of
        None \<Rightarrow> []
      | Some i \<Rightarrow> (if i < 0 then CHR ''-'' else CHR ''+'') # replicate (nat \<bar>i\<bar>) CHR ''i'')"

definition dec_time :: "string \<Rightarrow> int option" where
  "dec_time s =
     (case s of
        [] \<Rightarrow> None
      | c # r \<Rightarrow> if c = CHR ''-'' then Some (- int (length r)) else Some (int (length r)))"

definition test_encode :: "JwtPayload \<Rightarrow> string \<Rightarrow> string" where
  "test_encode c sg =
     enc_str (sub c) @ enc_str (email c) @ enc_str (role c)
     @ enc_str (enc_time (iat c)) @ enc_str (enc_time (exp c)) @ enc_str sg"

definition test_decode :: "string \<Rightarrow> (JwtPayload \<times> string) option" where
  "test_decode t =
     (case dec_str t of None \<Rightarrow> None | Some (s, t1) \<Rightarrow>
      case dec_str t1 of None \<Rightarrow> None | Some (e, t2) \<Rightarrow>
      case dec_str t2 of None \<Rightarrow> None | Some (r, t3) \<Rightarrow>
      case dec_str t3 of None \<Rightarrow> None | Some (i, t4) \<Rightarrow>
      case dec_str t4 of None \<Rightarrow> None | Some (x, t5) \<Rightarrow>
      case dec_str t5 of None \<Rightarrow> None | Some (sg, t6) \<Rightarrow>
        if t6 = []
        then Some (\<lparr> sub = s, email = e, role = r, iat = dec_time i, exp = dec_time x \<rparr>, sg)
        else None)"

definition test_timespan :: "string \<Rightarrow> int option" where
  "test_timespan s =
     (if s = ''15m'' then Some 900
      else if s = ''7d'' then Some 604800
      else if s = ''2s'' then Some 2
      else if s = ''-1s'' then Some (- 1)
      else None)"

definition test_lib :: packages where
  "test_lib =
     \<lparr> jwt_encode = test_encode,
       jwt_decode = test_decode,
       hmac = (\<lambda>secret c. secret @ sub c),
       ms_timespan = test_timespan,
       bcrypt_hash = (\<lambda>seed password rounds. Some (''$2b$'' @ password)),
       bcrypt_compare = (\<lambda>plain hashed. Some (hashed = ''$2b$'' @ plain)),
       uuid_of = (\<lambda>seed. replicate (Suc seed) CHR ''u'') \<rparr>"

text \<open>A store with one registered customer, whose password is \<open>Str0ng!Pw\<close>.\<close>

definition test_profile :: profiles where
  "test_profile =
     \<lparr> profile_id = ''p1'', profile_email = ''a@x.com'', profile_role = Some customer,
       full_name = Some ''A'', avatar_url = None, updated_at = Some 0 \<rparr>"

definition test_user :: users where
  "test_user =
     \<lparr> auth_id = ''p1'', auth_email = Some ''a@x.com'',
       encrypted_password = Some ''$2b$Str0ng!Pw'', email_confirmed_at = Some 0,
       created_at = Some 0, auth_updated_at = Some 0 \<rparr>"

definition test_database :: database where
  "test_database =
     \<lparr> users_table = [test_user], profiles_table = [test_profile],
       users_email_unique = False, faults = [] \<rparr>"

definition empty_database :: database where
  "empty_database =
     \<lparr> users_table = [], profiles_table = [], users_email_unique = False, faults = [] \<rparr>"

text \<open>A world with the default configuration (no key set) and one with short spans.\<close>

definition test_world :: world where
  "test_world =
     \<lparr> lib = test_lib,
       config = \<lparr> jwt_secret = None, accessTokenExpiration = None,
                  refreshTokenExpiration = None \<rparr>,
       clock = 1000, rng = 0, database = test_database \<rparr>"

definition short_world :: world where
  "short_world =
     \<lparr> lib = test_lib,
       config = \<lparr> jwt_secret = Some ''s'', accessTokenExpiration = Some ''2s'',
                  refreshTokenExpiration = Some ''2s'' \<rparr>,
       clock = 1, rng = 0, database = empty_database \<rparr>"


section \<open>Vocabulary of the statements\<close>

text \<open>
  The three ways a token is bad for a verifier that holds \<open>secret\<close> at time \<open>now\<close>: it
  is no well-formed token, its signature is not the one of its claims under the secret,
  or its \<open>exp\<close> has been reached.
\<close>

definition malformed :: "packages \<Rightarrow> string \<Rightarrow> bool" where
  "malformed L token = (jwt_decode L token = None)"

definition wrong_signature :: "packages \<Rightarrow> string \<Rightarrow> string \<Rightarrow> bool" where
  "wrong_signature L secret token =
     (case jwt_decode L token of
        None \<Rightarrow> False
      | Some (claims, signature) \<Rightarrow> signature \<noteq> hmac L secret claims)"

definition expired :: "packages \<Rightarrow> int \<Rightarrow> string \<Rightarrow> bool" where
  "expired L now token =
     (case jwt_decode L token of
        None \<Rightarrow> False
      | Some (claims, signature) \<Rightarrow>
          (case exp claims of None \<Rightarrow> False | Some e \<Rightarrow> e \<le> now))"

text \<open>The secret every method of \<open>JwtService\<close> reads from the configuration.\<close>

definition secret_of :: "world \<Rightarrow> string" where
  "secret_of w = or_default (jwt_secret (config w)) ''default-secret''"

text \<open>The fault the next query meets, and the world once that query has been made.\<close>

definition head_fault :: "world \<Rightarrow> string option" where
  "head_fault w = (case faults (database w) of [] \<Rightarrow> None | f # fs \<Rightarrow> f)"

definition after_query :: "world \<Rightarrow> world" where
  "after_query w = w\<lparr> database := (database w)\<lparr> faults := tl (faults (database w)) \<rparr> \<rparr>"

text \<open>The profile and the credential row the store holds for an email.\<close>

definition profile_of :: "world \<Rightarrow> string \<Rightarrow> profiles option" where
  "profile_of w e = find (\<lambda>p. profile_email p = e) (profiles_table (database w))"

definition credentials_of :: "world \<Rightarrow> string \<Rightarrow> users option" where
  "credentials_of w e = find (\<lambda>u. auth_email u = Some e) (users_table (database w))"

text \<open>
  The password is the right one for an email: the credential row of the email has a
  hash and bcrypt accepts the password against it.
\<close>

definition password_matches :: "world \<Rightarrow> string \<Rightarrow> string \<Rightarrow> bool" where
  "password_matches w e password =
     (case credentials_of w e of
        None \<Rightarrow> False
      | Some u \<Rightarrow>
          (case encrypted_password u of
             None \<Rightarrow> False
           | Some h \<Rightarrow> h \<noteq> [] \<and> bcrypt_compare (lib w) password h = Some True))"


text \<open>
  The two rows a successful \<open>register\<close> writes, for the hash \<open>h\<close> of the password: the
  hash takes one random value and the identifier the next.
\<close>

definition new_user_row :: "world \<Rightarrow> RegisterDto \<Rightarrow> string \<Rightarrow> users" where
  "new_user_row w dto h =
     \<lparr> auth_id = uuid_of (lib w) (rng w + 1), auth_email = Some (reg_email dto),
       encrypted_password = Some h, email_confirmed_at = Some (clock w),
       created_at = Some (clock w), auth_updated_at = Some (clock w) \<rparr>"

definition new_profile_row :: "world \<Rightarrow> RegisterDto \<Rightarrow> profiles" where
  "new_profile_row w dto =
     \<lparr> profile_id = uuid_of (lib w) (rng w + 1), profile_email = reg_email dto,
       profile_role = Some customer, full_name = Some (reg_full_name dto),
       avatar_url = None, updated_at = Some (clock w) \<rparr>"

text \<open>The test world with a store whose next query fails (the server is unreachable).\<close>

definition faulty_world :: world where
  "faulty_world = test_world\<lparr> database := test_database\<lparr> faults := [Some ''P1001''] \<rparr> \<rparr>"

text \<open>
  The same failure in a store where \<open>auth.users\<close> enforces unique emails and the
  credential row of the profile carries an older email.
\<close>

definition strict_faulty_world :: world where
  "strict_faulty_world =
     test_world\<lparr> database :=
       \<lparr> users_table = [test_user\<lparr> auth_email := Some ''old@x.com'' \<rparr>],
         profiles_table = [test_profile],
         users_email_unique = True,
         faults = [Some ''P1001''] \<rparr> \<rparr>"

definition strong_registration :: RegisterDto where
  "strong_registration =
     \<lparr> reg_email = ''a@x.com'', reg_password = ''Str0ng!Pw'', reg_full_name = ''A'' \<rparr>"

definition weak_registration :: RegisterDto where
  "weak_registration =
     \<lparr> reg_email = ''b@x.com'', reg_password = ''weak'', reg_full_name = ''B'' \<rparr>"

definition new_registration :: RegisterDto where
  "new_registration =
     \<lparr> reg_email = ''b@x.com'', reg_password = ''Str0ng!Pw'', reg_full_name = ''B'' \<rparr>"

text \<open>The response to \<open>new_registration\<close> in \<open>short_world\<close>.\<close>

definition new_response :: AuthResponse where
  "new_response =
     \<lparr> access_token = ''110uu11111110b@x.com111111110customer110+i11110+iii1110suu'',
       refresh_token = ''110uu11111110b@x.com111111110customer110+i11110+iii1110suu'',
       user_data = \<lparr> resp_id = ''uu'', resp_email = ''b@x.com'', resp_role = Some customer,
                     resp_full_name = ''B'' \<rparr> \<rparr>"

text \<open>A token pair issued in \<open>short_world\<close> for an administrator.\<close>

definition admin_identity :: JwtPayload where
  "admin_identity =
     \<lparr> sub = ''u1'', email = ''a@x.com'', role = ''admin'', iat = None, exp = None \<rparr>"

definition admin_token :: string where
  "admin_token = ''110u111111110a@x.com111110admin110+i11110+iii1110su1''"



section \<open>The password strength check\<close>

lemma errors_validatePasswordStrength:
  "errors (validatePasswordStrength p) =
     (if length p < 8 then [''Password must be at least 8 characters long''] else [])
     @ (if \<not> regex_test lowercase_class p
        then [''Password must contain at least one lowercase letter''] else [])
     @ (if \<not> regex_test uppercase_class p
        then [''Password must contain at least one uppercase letter''] else [])
     @ (if \<not> regex_test digit_class p
        then [''Password must contain at least one digit''] else [])
     @ (if \<not> regex_test special_class p
        then [''Password must contain at least one special character (@$!%*?&)''] else [])"
  by (simp add: validatePasswordStrength_def Let_def push_if_def)

lemma isValid_validatePasswordStrength:
  "isValid (validatePasswordStrength p) \<longleftrightarrow>
     8 \<le> length p \<and> (\<exists>c \<in> set p. lowercase_class c) \<and> (\<exists>c \<in> set p. uppercase_class c)
     \<and> (\<exists>c \<in> set p. digit_class c) \<and> (\<exists>c \<in> set p. special_class c)"
  by (auto simp add: validatePasswordStrength_def Let_def push_if_def regex_test_def list_ex_iff)

lemma isValid_iff_no_errors:
  "isValid (validatePasswordStrength p) \<longleftrightarrow> errors (validatePasswordStrength p) = []"
  by (simp add: validatePasswordStrength_def Let_def)

lemma special_class_iff: "special_class c \<longleftrightarrow> c \<in> {CHR ''@'', CHR ''$'', CHR ''!'', CHR ''%'', CHR ''*'', CHR ''?'', CHR ''&''}"
  by (auto simp: special_class_def)

text \<open>
  Claim C4.  For every password, \<open>validatePasswordStrength\<close> answers \<open>isValid = true\<close>
  exactly when the password has at least 8 characters and contains a lowercase letter,
  an uppercase letter, a digit and one of \<open>@ $ ! % * ? &\<close>.  Its list of errors is the
  list of the messages of the violated rules, each once and in the order of the rules,
  whatever the other rules say, and it is empty exactly when \<open>isValid\<close> is true.
\<close>

theorem validatePasswordStrength_rules:
  "(isValid (validatePasswordStrength p) \<longleftrightarrow>
      8 \<le> length p
      \<and> (\<exists>c \<in> set p. 97 \<le> (of_char c :: nat) \<and> (of_char c :: nat) \<le> 122)
      \<and> (\<exists>c \<in> set p. 65 \<le> (of_char c :: nat) \<and> (of_char c :: nat) \<le> 90)
      \<and> (\<exists>c \<in> set p. 48 \<le> (of_char c :: nat) \<and> (of_char c :: nat) \<le> 57)
      \<and> (\<exists>c \<in> set p. c \<in> {CHR ''@'', CHR ''$'', CHR ''!'', CHR ''%'', CHR ''*'',
                              CHR ''?'', CHR ''&''}))
   \<and> errors (validatePasswordStrength p) =
       (if length p < 8 then [''Password must be at least 8 characters long''] else [])
       @ (if \<not> (\<exists>c \<in> set p. lowercase_class c)
          then [''Password must contain at least one lowercase letter''] else [])
       @ (if \<not> (\<exists>c \<in> set p. uppercase_class c)
          then [''Password must contain at least one uppercase letter''] else [])
       @ (if \<not> (\<exists>c \<in> set p. digit_class c)
          then [''Password must contain at least one digit''] else [])
       @ (if \<not> (\<exists>c \<in> set p. special_class c)
          then [''Password must contain at least one special character (@$!%*?&)''] else [])
   \<and> (errors (validatePasswordStrength p) = [] \<longleftrightarrow> isValid (validatePasswordStrength p))"
proof (intro conjI)
  show "isValid (validatePasswordStrength p) \<longleftrightarrow>
      8 \<le> length p
      \<and> (\<exists>c \<in> set p. 97 \<le> (of_char c :: nat) \<and> (of_char c :: nat) \<le> 122)
      \<and> (\<exists>c \<in> set p. 65 \<le> (of_char c :: nat) \<and> (of_char c :: nat) \<le> 90)
      \<and> (\<exists>c \<in> set p. 48 \<le> (of_char c :: nat) \<and> (of_char c :: nat) \<le> 57)
      \<and> (\<exists>c \<in> set p. c \<in> {CHR ''@'', CHR ''$'', CHR ''!'', CHR ''%'', CHR ''*'',
                              CHR ''?'', CHR ''&''})"
    unfolding isValid_validatePasswordStrength special_class_iff
      lowercase_class_def uppercase_class_def digit_class_def
    by (rule refl)
  show "errors (validatePasswordStrength p) =
       (if length p < 8 then [''Password must be at least 8 characters long''] else [])
       @ (if \<not> (\<exists>c \<in> set p. lowercase_class c)
          then [''Password must contain at least one lowercase letter''] else [])
       @ (if \<not> (\<exists>c \<in> set p. uppercase_class c)
          then [''Password must contain at least one uppercase letter''] else [])
       @ (if \<not> (\<exists>c \<in> set p. digit_class c)
          then [''Password must contain at least one digit''] else [])
       @ (if \<not> (\<exists>c \<in> set p. special_class c)
          then [''Password must contain at least one special character (@$!%*?&)''] else [])"
    unfolding errors_validatePasswordStrength regex_test_def list_ex_iff by (rule refl)
  show "errors (validatePasswordStrength p) = [] \<longleftrightarrow> isValid (validatePasswordStrength p)"
    by (simp add: isValid_iff_no_errors)
qed

theorem validatePasswordStrength_rules_witness:
  "isValid (validatePasswordStrength ''Str0ng!Pw'')
   \<and> errors (validatePasswordStrength ''Str0ng!Pw'') = []
   \<and> \<not> isValid (validatePasswordStrength ''weak'')
   \<and> errors (validatePasswordStrength ''weak'') =
       [''Password must be at least 8 characters long'',
        ''Password must contain at least one uppercase letter'',
        ''Password must contain at least one digit'',
        ''Password must contain at least one special character (@$!%*?&)'']"
  using validatePasswordStrength_rules [of "''Str0ng!Pw''"]
        validatePasswordStrength_rules [of "''weak''"]
  by (simp add: lowercase_class_def uppercase_class_def digit_class_def special_class_def)


section \<open>The Authorization header\<close>

lemma split_on_not_Nil: "split_on sep s \<noteq> []"
  by (induction s) (auto split: list.splits)

lemma split_on_no_sep: "sep \<notin> set a \<Longrightarrow> split_on sep a = [a]"
  by (induction a) auto

lemma split_on_append: "sep \<notin> set a \<Longrightarrow> split_on sep (a @ sep # s) = a # split_on sep s"
  by (induction a) auto

lemma split_on_cases:
  obtains (whole) "sep \<notin> set s" "split_on sep s = [s]"
  | (cut) a s' where "s = a @ sep # s'" "sep \<notin> set a" "split_on sep s = a # split_on sep s'"
proof (cases "sep \<in> set s")
  case False
  then show ?thesis using whole split_on_no_sep by blast
next
  case True
  then obtain a s' where "s = a @ sep # s'" "sep \<notin> set a"
    by (meson split_list_first)
  then show ?thesis using cut split_on_append by blast
qed

text \<open>The first segment of a split and what is left of the string behind it.\<close>

lemma split_on_Cons_iff:
  "split_on sep s = a # rest \<longleftrightarrow>
     sep \<notin> set a \<and>
     ((rest = [] \<and> s = a) \<or> (\<exists>s'. s = a @ sep # s' \<and> split_on sep s' = rest))"
proof (cases rule: split_on_cases [of sep s])
  case whole
  then show ?thesis by (auto simp: split_on_not_Nil)
next
  case (cut b s')
  show ?thesis
  proof
    assume "split_on sep s = a # rest"
    with cut show "sep \<notin> set a \<and>
        ((rest = [] \<and> s = a) \<or> (\<exists>s'. s = a @ sep # s' \<and> split_on sep s' = rest))"
      by auto
  next
    assume "sep \<notin> set a \<and>
        ((rest = [] \<and> s = a) \<or> (\<exists>s'. s = a @ sep # s' \<and> split_on sep s' = rest))"
    then show "split_on sep s = a # rest"
      by (auto simp: split_on_no_sep split_on_append)
  qed
qed

lemma extractTokenFromHeader_split:
  "extractTokenFromHeader h = Some t \<longleftrightarrow>
     t \<noteq> [] \<and> (\<exists>rest. split_on CHR '' '' h = ''Bearer'' # t # rest)"
proof -
  obtain a rest where sp: "split_on CHR '' '' h = a # rest"
    using split_on_not_Nil [of "CHR '' ''" h] by (cases "split_on CHR '' '' h") auto
  have ne: "h = [] \<Longrightarrow> a = []"
    using sp by simp
  show ?thesis
    using ne
    by (cases rest) (auto simp: extractTokenFromHeader_def sp at_index_def truthy_def Let_def)
qed

text \<open>
  Claim C5, as stated, fails: a header of three segments whose first is \<open>Bearer\<close> is
  not rejected, its second segment is returned.
\<close>

theorem extractTokenFromHeader_three_segments:
  "split_on CHR '' '' ''Bearer abc def'' = [''Bearer'', ''abc'', ''def'']
   \<and> extractTokenFromHeader ''Bearer abc def'' = Some ''abc''"
  by (simp add: extractTokenFromHeader_def at_index_def truthy_def)

text \<open>
  Claim C5, amended.  \<open>extractTokenFromHeader\<close> returns a token exactly when the header
  is \<open>Bearer\<close>, one space and a non-empty token without a space, the token ending where the
  header ends or at the next space; what follows that space is ignored.  Every other
  header gives \<open>null\<close> (the function has no other result, it raises no error).
\<close>

theorem extractTokenFromHeader_bearer:
  "extractTokenFromHeader h = Some t \<longleftrightarrow>
     t \<noteq> [] \<and> CHR '' '' \<notin> set t \<and>
     (h = ''Bearer '' @ t \<or> (\<exists>r. h = ''Bearer '' @ t @ CHR '' '' # r))"
proof -
  have "(\<exists>rest. split_on CHR '' '' h = ''Bearer'' # t # rest) \<longleftrightarrow>
        (\<exists>s'. h = ''Bearer'' @ CHR '' '' # s' \<and> (\<exists>rest. split_on CHR '' '' s' = t # rest))"
    by (subst split_on_Cons_iff) auto
  also have "\<dots> \<longleftrightarrow> (\<exists>s'. h = ''Bearer '' @ s' \<and> CHR '' '' \<notin> set t \<and>
                     (s' = t \<or> (\<exists>r. s' = t @ CHR '' '' # r)))"
    by (subst split_on_Cons_iff) auto
  finally show ?thesis
    unfolding extractTokenFromHeader_split by auto
qed

theorem extractTokenFromHeader_bearer_witness:
  "extractTokenFromHeader ''Bearer abc'' = Some ''abc''
   \<and> extractTokenFromHeader ''Bearer '' \<noteq> Some []
   \<and> extractTokenFromHeader ''Basic abc'' \<noteq> Some ''abc''"
  using extractTokenFromHeader_bearer [of "''Bearer abc''" "''abc''"]
        extractTokenFromHeader_bearer [of "''Bearer ''" "[]"]
        extractTokenFromHeader_bearer [of "''Basic abc''" "''abc''"]
  by simp


section \<open>The role guard\<close>

lemma role_name_not_empty: "role_name r \<noteq> []"
  by (cases r) auto

text \<open>
  Claim C8.  The role guard passes a route that declares no roles or an empty list of
  roles.  On a route with roles it fails with the 401 \<open>UnauthorizedException\<close> when no
  identity is attached to the request, fails with a 403 \<open>ForbiddenException\<close> when the
  role of the identity is not one of the declared roles, and passes otherwise.
\<close>

theorem RolesGuard_decision:
  "(requiredRoles = None \<or> requiredRoles = Some []
      \<longrightarrow> RolesGuard_canActivate requiredRoles req = Inr True)
   \<and> (\<forall>rs. requiredRoles = Some rs \<and> rs \<noteq> [] \<and> user req = None
      \<longrightarrow> RolesGuard_canActivate requiredRoles req
            = Inl (UnauthorizedException ''User not authenticated'')
          \<and> getStatus (UnauthorizedException ''User not authenticated'') = 401)
   \<and> (\<forall>rs u. requiredRoles = Some rs \<and> rs \<noteq> [] \<and> user req = Some u
          \<and> \<not> (\<exists>r \<in> set rs. user_role u = Some (role_name r))
      \<longrightarrow> (\<exists>m. RolesGuard_canActivate requiredRoles req = Inl (ForbiddenException m)
               \<and> getStatus (ForbiddenException m) = 403))
   \<and> (\<forall>rs u. requiredRoles = Some rs \<and> rs \<noteq> [] \<and> user req = Some u
          \<and> (\<exists>r \<in> set rs. user_role u = Some (role_name r))
      \<longrightarrow> RolesGuard_canActivate requiredRoles req = Inr True)"
  by (cases requiredRoles; cases "user req")
     (auto simp: RolesGuard_canActivate_def truthy_def Let_def role_name_not_empty
           split: option.splits)

theorem RolesGuard_decision_witness:
  "RolesGuard_canActivate (Some [admin])
       \<lparr> authorization = None,
         user = Some \<lparr> user_id = ''u1'', user_email = ''a@x.com'',
                       user_role = Some ''admin'' \<rparr> \<rparr> = Inr True
   \<and> (\<exists>m. RolesGuard_canActivate (Some [admin])
       \<lparr> authorization = None,
         user = Some \<lparr> user_id = ''u2'', user_email = ''c@x.com'',
                       user_role = Some ''customer'' \<rparr> \<rparr> = Inl (ForbiddenException m))
   \<and> RolesGuard_canActivate (Some [admin]) \<lparr> authorization = None, user = None \<rparr>
       = Inl (UnauthorizedException ''User not authenticated'')
   \<and> RolesGuard_canActivate None \<lparr> authorization = None, user = None \<rparr> = Inr True"
  using RolesGuard_decision [of "Some [admin]"
          "\<lparr> authorization = None,
             user = Some \<lparr> user_id = ''u1'', user_email = ''a@x.com'',
                           user_role = Some ''admin'' \<rparr> \<rparr>"]
        RolesGuard_decision [of "Some [admin]"
          "\<lparr> authorization = None,
             user = Some \<lparr> user_id = ''u2'', user_email = ''c@x.com'',
                           user_role = Some ''customer'' \<rparr> \<rparr>"]
        RolesGuard_decision [of "Some [admin]" "\<lparr> authorization = None, user = None \<rparr>"]
        RolesGuard_decision [of None "\<lparr> authorization = None, user = None \<rparr>"]
  by simp


section \<open>The test double is a codec\<close>

lemma dec_enc_str: "dec_str (enc_str s @ r) = Some (s, r)"
proof -
  have tw: "takeWhile (\<lambda>c. c = CHR ''1'') (replicate (length s) CHR ''1'' @ CHR ''0'' # s @ r)
              = replicate (length s) CHR ''1''"
    by (simp add: takeWhile_tail)
  show ?thesis
    by (simp add: dec_str_def enc_str_def tw Let_def)
qed

lemma dec_enc_time: "dec_time (enc_time v) = v"
  by (cases v) (auto simp: dec_time_def enc_time_def)

lemma test_codec: "test_decode (test_encode c sg) = Some (c, sg)"
proof -
  have e: "dec_str (enc_str sg) = Some (sg, [])"
    using dec_enc_str [of sg "[]"] by simp
  show ?thesis
    by (simp add: test_decode_def test_encode_def dec_enc_str e dec_enc_time)
qed

lemma test_world_lib [simp]: "lib test_world = test_lib" "lib short_world = test_lib"
  by (simp_all add: test_world_def short_world_def)

lemma test_lib_codec: "jwt_decode test_lib (jwt_encode test_lib c s) = Some (c, s)"
  by (simp add: test_lib_def test_codec)

lemma admin_token_decode:
  "test_decode admin_token =
     Some (\<lparr> sub = ''u1'', email = ''a@x.com'', role = ''admin'', iat = Some 1, exp = Some 3 \<rparr>,
           ''su1'')"
  by (simp add: test_decode_def admin_token_def dec_str_def dec_time_def Let_def)

lemma garbage_decode: "test_decode ''invalid.token.string'' = None"
  by (simp add: test_decode_def dec_str_def Let_def)

lemma test_world_spans:
  "ms_timespan (lib test_world) (or_default (accessTokenExpiration (config test_world)) ''15m'')
     = Some 900"
  "ms_timespan (lib test_world) (or_default (refreshTokenExpiration (config test_world)) ''7d'')
     = Some 604800"
  by (simp_all add: test_world_def test_lib_def test_timespan_def or_default_def truthy_def)

lemma short_world_spans:
  "ms_timespan (lib short_world) (or_default (accessTokenExpiration (config short_world)) ''15m'')
     = Some 2"
  "ms_timespan (lib short_world) (or_default (refreshTokenExpiration (config short_world)) ''7d'')
     = Some 2"
  by (simp_all add: short_world_def test_lib_def test_timespan_def or_default_def truthy_def)


section \<open>Issuing and verifying tokens\<close>

text \<open>With readable time spans, \<open>generateTokens\<close> resolves to these two tokens.\<close>

lemma generateTokens_ok:
  assumes acc: "ms_timespan (lib w) (or_default (accessTokenExpiration (config w)) ''15m'') = Some da"
      and rf: "ms_timespan (lib w) (or_default (refreshTokenExpiration (config w)) ''7d'') = Some dr"
  shows "generateTokens w p =
     Inr \<lparr> access_token =
             jwt_encode (lib w)
               \<lparr> sub = sub p, email = email p, role = role p,
                 iat = Some (clock w), exp = Some (clock w + da) \<rparr>
               (hmac (lib w) (secret_of w)
                  \<lparr> sub = sub p, email = email p, role = role p,
                    iat = Some (clock w), exp = Some (clock w + da) \<rparr>),
           refresh_token =
             jwt_encode (lib w)
               \<lparr> sub = sub p, email = email p, role = role p,
                 iat = Some (clock w), exp = Some (clock w + dr) \<rparr>
               (hmac (lib w) (secret_of w)
                  \<lparr> sub = sub p, email = email p, role = role p,
                    iat = Some (clock w), exp = Some (clock w + dr) \<rparr>) \<rparr>"
  using acc rf
  by (simp add: generateTokens_def generateAccessToken_def generateRefreshToken_def
        jwt_sign_def secret_of_def Let_def)

lemma verifyAccessToken_run:
  "verifyAccessToken w token =
     (if malformed (lib w) token \<or> wrong_signature (lib w) (secret_of w) token
         \<or> expired (lib w) (clock w) token
      then Inl (UnauthorizedException ''Invalid or expired access token'')
      else Inr (fst (the (jwt_decode (lib w) token))))"
  by (auto simp: verifyAccessToken_def jwt_verify_def malformed_def wrong_signature_def
        expired_def secret_of_def Let_def split: option.splits prod.splits)

lemma verifyRefreshToken_run:
  "verifyRefreshToken w token =
     (if malformed (lib w) token \<or> wrong_signature (lib w) (secret_of w) token
         \<or> expired (lib w) (clock w) token
      then Inl (UnauthorizedException ''Invalid or expired refresh token'')
      else Inr (fst (the (jwt_decode (lib w) token))))"
  by (auto simp: verifyRefreshToken_def jwt_verify_def malformed_def wrong_signature_def
        expired_def secret_of_def Let_def split: option.splits prod.splits)

text \<open>The methods of \<open>JwtService\<close> read the packages, the configuration and the clock only.\<close>

lemma generateTokens_same_env:
  assumes "lib w' = lib w" "config w' = config w" "clock w' = clock w"
  shows "generateTokens w' p = generateTokens w p"
proof -
  have "generateAccessToken w' q = generateAccessToken w q" for q
    using assms by (simp add: generateAccessToken_def)
  moreover have "generateRefreshToken w' q = generateRefreshToken w q" for q
    using assms by (simp add: generateRefreshToken_def)
  ultimately show ?thesis
    by (simp add: generateTokens_def Let_def cong: sum.case_cong)
qed

lemma generateTokens_database [simp]:
  "generateTokens (w\<lparr> database := db \<rparr>) p = generateTokens w p"
  by (rule generateTokens_same_env) simp_all

lemma verifyRefreshToken_database [simp]:
  "verifyRefreshToken (w\<lparr> database := db \<rparr>) t = verifyRefreshToken w t"
  by (simp add: verifyRefreshToken_def)

lemma verifyAccessToken_database [simp]:
  "verifyAccessToken (w\<lparr> database := db \<rparr>) t = verifyAccessToken w t"
  by (simp add: verifyAccessToken_def)

lemma generateTokens_only_identity:
  "sub q = sub p \<Longrightarrow> email q = email p \<Longrightarrow> role q = role p \<Longrightarrow>
     generateTokens w q = generateTokens w p"
  by (simp add: generateTokens_def)

text \<open>
  Claim C1.  For every identity (a subject, an email and a role), \<open>generateTokens\<close>
  issues a pair whose access token \<open>verifyAccessToken\<close> accepts, returning a payload
  with the subject, the email and the role of the identity, and whose refresh token
  \<open>verifyRefreshToken\<close> accepts likewise.  The environment is made explicit: the token
  package reads back what it serialised, the configured time spans are readable, and
  each token is verified before its expiry (the clock of the verification is \<open>ta\<close> for
  the access token and \<open>tr\<close> for the refresh token).
\<close>

theorem generateTokens_verify_roundtrip:
  assumes codec: "\<And>c s. jwt_decode (lib w) (jwt_encode (lib w) c s) = Some (c, s)"
      and acc: "ms_timespan (lib w) (or_default (accessTokenExpiration (config w)) ''15m'') = Some da"
      and rf: "ms_timespan (lib w) (or_default (refreshTokenExpiration (config w)) ''7d'') = Some dr"
      and ta: "ta < clock w + da"
      and tr: "tr < clock w + dr"
  shows "\<exists>tokens pa pr.
           generateTokens w identity = Inr tokens
           \<and> verifyAccessToken (w\<lparr> clock := ta \<rparr>) (access_token tokens) = Inr pa
           \<and> sub pa = sub identity \<and> email pa = email identity \<and> role pa = role identity
           \<and> verifyRefreshToken (w\<lparr> clock := tr \<rparr>) (refresh_token tokens) = Inr pr
           \<and> sub pr = sub identity \<and> email pr = email identity \<and> role pr = role identity"
  using ta tr
  by (simp add: generateTokens_ok [OF acc rf] verifyAccessToken_run verifyRefreshToken_run
        malformed_def wrong_signature_def expired_def codec secret_of_def)

theorem generateTokens_verify_roundtrip_witness:
  "\<exists>tokens pa pr.
     generateTokens test_world admin_identity = Inr tokens
     \<and> verifyAccessToken (test_world\<lparr> clock := 1899 \<rparr>) (access_token tokens) = Inr pa
     \<and> sub pa = ''u1'' \<and> email pa = ''a@x.com'' \<and> role pa = ''admin''
     \<and> verifyRefreshToken (test_world\<lparr> clock := 605799 \<rparr>) (refresh_token tokens) = Inr pr
     \<and> sub pr = ''u1'' \<and> email pr = ''a@x.com'' \<and> role pr = ''admin''"
proof -
  have codec: "\<And>c s. jwt_decode (lib test_world) (jwt_encode (lib test_world) c s) = Some (c, s)"
    by (simp add: test_lib_codec)
  have ta: "1899 < clock test_world + 900" and tr: "605799 < clock test_world + 604800"
    by (simp_all add: test_world_def)
  have i: "sub admin_identity = ''u1''" "email admin_identity = ''a@x.com''"
    "role admin_identity = ''admin''"
    by (simp_all add: admin_identity_def)
  show ?thesis
    using generateTokens_verify_roundtrip
            [of test_world 900 604800 1899 605799 admin_identity,
             OF codec test_world_spans ta tr]
    unfolding i .
qed

text \<open>A token signed under a secret whose signature differs has a wrong signature.\<close>

lemma signed_elsewhere_wrong_signature:
  assumes codec: "\<And>c s. jwt_decode L (jwt_encode L c s) = Some (c, s)"
      and sign: "jwt_sign L payload other expiresIn now = Inr token"
      and differ: "\<And>c. hmac L other c \<noteq> hmac L secret c"
  shows "wrong_signature L secret token"
  using sign differ
  by (auto simp: jwt_sign_def wrong_signature_def codec Let_def split: option.splits)

text \<open>
  Claim C2.  A token that is malformed, whose signature is not the one of its claims
  under the configured secret (as for a token signed under another secret), or that has
  expired is rejected by \<open>verifyAccessToken\<close> and by \<open>verifyRefreshToken\<close>, and no payload
  is returned.  Each verifier has one error, whatever the cause: every rejection of
  \<open>verifyAccessToken\<close> is the \<open>UnauthorizedException\<close> with the message of the access
  token, every rejection of \<open>verifyRefreshToken\<close> the one with the message of the refresh
  token, so an expired and a tampered token give the same error.
\<close>

theorem verify_rejects_bad_tokens:
  "(malformed (lib w) token \<or> wrong_signature (lib w) (secret_of w) token
      \<or> expired (lib w) (clock w) token
    \<longrightarrow> verifyAccessToken w token = Inl (UnauthorizedException ''Invalid or expired access token'')
        \<and> verifyRefreshToken w token = Inl (UnauthorizedException ''Invalid or expired refresh token''))
   \<and> (\<forall>e. verifyAccessToken w token = Inl e
          \<longrightarrow> e = UnauthorizedException ''Invalid or expired access token'')
   \<and> (\<forall>e. verifyRefreshToken w token = Inl e
          \<longrightarrow> e = UnauthorizedException ''Invalid or expired refresh token'')"
  by (simp add: verifyAccessToken_run verifyRefreshToken_run)

theorem verify_rejects_bad_tokens_witness:
  "malformed (lib short_world) ''invalid.token.string''
   \<and> wrong_signature (lib test_world) (secret_of test_world) admin_token
   \<and> expired (lib short_world) (clock (short_world\<lparr> clock := 3 \<rparr>)) admin_token
   \<and> verifyAccessToken short_world ''invalid.token.string''
        = Inl (UnauthorizedException ''Invalid or expired access token'')
   \<and> verifyAccessToken (short_world\<lparr> clock := 3 \<rparr>) admin_token
        = Inl (UnauthorizedException ''Invalid or expired access token'')
   \<and> verifyRefreshToken test_world admin_token
        = Inl (UnauthorizedException ''Invalid or expired refresh token'')"
proof -
  have m: "malformed (lib short_world) ''invalid.token.string''"
    by (simp add: malformed_def test_lib_def garbage_decode)
  have s: "wrong_signature (lib test_world) (secret_of test_world) admin_token"
    by (simp add: wrong_signature_def test_lib_def admin_token_decode secret_of_def
          or_default_def truthy_def test_world_def)
  have e: "expired (lib (short_world\<lparr> clock := 3 \<rparr>)) (clock (short_world\<lparr> clock := 3 \<rparr>))
             admin_token"
    by (simp add: expired_def test_lib_def admin_token_decode)
  have l: "lib (short_world\<lparr> clock := 3 \<rparr>) = lib short_world"
    by simp
  show ?thesis
    using verify_rejects_bad_tokens [of short_world "''invalid.token.string''", THEN conjunct1]
          verify_rejects_bad_tokens [of "short_world\<lparr> clock := 3 \<rparr>" admin_token, THEN conjunct1]
          verify_rejects_bad_tokens [of test_world admin_token, THEN conjunct1]
          m s e
    unfolding l by blast
qed


section \<open>The authentication guard\<close>

text \<open>
  Claim C9.  The authentication guard builds the identity it attaches to the request
  from the payload of the verified access token alone: a request whose header carries a
  token that \<open>verifyAccessToken\<close> accepts is admitted with the subject, the email and the
  role of the payload, and this holds whatever the store \<open>db\<close> contains.
\<close>

theorem JwtAuthGuard_identity_from_token:
  assumes hdr: "authorization req = Some h"
      and tok: "extractTokenFromHeader h = Some token"
      and ver: "verifyAccessToken w token = Inr payload"
  shows "JwtAuthGuard_canActivate (w\<lparr> database := db \<rparr>) req =
           Inr (req\<lparr> user := Some \<lparr> user_id = sub payload, user_email = email payload,
                                    user_role = Some (role payload) \<rparr> \<rparr>)"
proof -
  have h: "h \<noteq> []"
    using tok by (auto simp: extractTokenFromHeader_def)
  have t: "token \<noteq> []"
    using tok by (auto simp: extractTokenFromHeader_def truthy_def Let_def split: if_splits)
  show ?thesis
    by (simp add: JwtAuthGuard_canActivate_def hdr tok truthy_def h t ver Let_def)
qed

theorem JwtAuthGuard_identity_from_token_witness:
  "JwtAuthGuard_canActivate (short_world\<lparr> database := test_database \<rparr>)
       \<lparr> authorization = Some (''Bearer '' @ admin_token), user = None \<rparr>
     = Inr \<lparr> authorization = Some (''Bearer '' @ admin_token),
             user = Some \<lparr> user_id = ''u1'', user_email = ''a@x.com'',
                           user_role = Some ''admin'' \<rparr> \<rparr>"
proof -
  have h: "authorization \<lparr> authorization = Some (''Bearer '' @ admin_token), user = None \<rparr>
             = Some (''Bearer '' @ admin_token)"
    by simp
  have t: "extractTokenFromHeader (''Bearer '' @ admin_token) = Some admin_token"
    by (simp add: extractTokenFromHeader_def admin_token_def at_index_def truthy_def)
  have v: "verifyAccessToken short_world admin_token
             = Inr \<lparr> sub = ''u1'', email = ''a@x.com'', role = ''admin'',
                     iat = Some 1, exp = Some 3 \<rparr>"
    by (simp add: verifyAccessToken_def jwt_verify_def short_world_def test_lib_def
          admin_token_decode or_default_def truthy_def)
  show ?thesis
    using JwtAuthGuard_identity_from_token [OF h t v, of test_database] by simp
qed


section \<open>Refreshing tokens\<close>

text \<open>
  Claim C7, as stated, fails in its second half: \<open>refreshTokens\<close> of \<open>AuthService\<close> does
  not turn the error of the token service into the error of invalid credentials that
  \<open>login\<close> gives.  It rethrows the \<open>UnauthorizedException\<close> of the token service as it is,
  with the message of the refresh token.
\<close>

theorem refreshTokens_error_not_translated:
  "fst (refreshTokens ''invalid.token.string'' test_world)
     = Inl (UnauthorizedException ''Invalid or expired refresh token'')
   \<and> fst (login \<lparr> login_email = ''a@x.com'', login_password = ''wrong'' \<rparr> test_world)
     = Inl (UnauthorizedException ''Invalid credentials'')"
  by code_simp

text \<open>
  Claim C7, amended.  With readable configured time spans: when the refresh token
  verifies, \<open>refreshTokens\<close> of \<open>AuthService\<close> returns a new pair, the one \<open>generateTokens\<close>
  issues now for any payload with the subject, the email and the role of the old token
  (its \<open>iat\<close> and \<open>exp\<close> play no part), and it does so whatever the store \<open>db\<close> contains,
  which it leaves as it is.  When the verification fails, it rethrows the
  \<open>UnauthorizedException\<close> of the token service, with the message
  \<open>Invalid or expired refresh token\<close>, unchanged.
\<close>

theorem refreshTokens_reissues:
  assumes acc: "ms_timespan (lib w) (or_default (accessTokenExpiration (config w)) ''15m'') = Some da"
      and rf: "ms_timespan (lib w) (or_default (refreshTokenExpiration (config w)) ''7d'') = Some dr"
  shows "(\<forall>p. verifyRefreshToken w token = Inr p \<longrightarrow>
            (\<exists>pair. refreshTokens token (w\<lparr> database := db \<rparr>) = (Inr pair, w\<lparr> database := db \<rparr>)
               \<and> (\<forall>q. sub q = sub p \<and> email q = email p \<and> role q = role p
                      \<longrightarrow> generateTokens w q = Inr pair)))
       \<and> (\<forall>e. verifyRefreshToken w token = Inl e \<longrightarrow>
            refreshTokens token (w\<lparr> database := db \<rparr>)
              = (Inl (UnauthorizedException ''Invalid or expired refresh token''),
                 w\<lparr> database := db \<rparr>))"
proof (intro conjI allI impI)
  fix p assume v: "verifyRefreshToken w token = Inr p"
  let ?i = "\<lparr> sub = sub p, email = email p, role = role p, iat = None, exp = None \<rparr>"
  obtain pair where g: "generateTokens w ?i = Inr pair"
    using generateTokens_ok [OF acc rf, of ?i] by blast
  have "refreshTokens token (w\<lparr> database := db \<rparr>) = (Inr pair, w\<lparr> database := db \<rparr>)"
    by (simp add: refreshTokens_def tryCatch_def reading_def JwtService_refreshTokens_def v g)
  moreover have "generateTokens w q = Inr pair"
    if "sub q = sub p \<and> email q = email p \<and> role q = role p" for q
    using that g generateTokens_only_identity [of q ?i w] by simp
  ultimately
  show "\<exists>pair. refreshTokens token (w\<lparr> database := db \<rparr>) = (Inr pair, w\<lparr> database := db \<rparr>)
               \<and> (\<forall>q. sub q = sub p \<and> email q = email p \<and> role q = role p
                      \<longrightarrow> generateTokens w q = Inr pair)"
    by blast
next
  fix e assume v: "verifyRefreshToken w token = Inl e"
  then have e: "e = UnauthorizedException ''Invalid or expired refresh token''"
    by (simp add: verifyRefreshToken_run split: if_splits)
  show "refreshTokens token (w\<lparr> database := db \<rparr>)
          = (Inl (UnauthorizedException ''Invalid or expired refresh token''),
             w\<lparr> database := db \<rparr>)"
    using v e
    by (simp add: refreshTokens_def tryCatch_def reading_def JwtService_refreshTokens_def
          throw_def)
qed

theorem refreshTokens_reissues_witness:
  "(\<exists>pair. refreshTokens admin_token (short_world\<lparr> database := test_database \<rparr>)
             = (Inr pair, short_world\<lparr> database := test_database \<rparr>)
          \<and> generateTokens short_world admin_identity = Inr pair)
   \<and> refreshTokens ''invalid.token.string'' (short_world\<lparr> database := test_database \<rparr>)
       = (Inl (UnauthorizedException ''Invalid or expired refresh token''),
          short_world\<lparr> database := test_database \<rparr>)"
proof -
  have v: "verifyRefreshToken short_world admin_token
             = Inr \<lparr> sub = ''u1'', email = ''a@x.com'', role = ''admin'',
                     iat = Some 1, exp = Some 3 \<rparr>"
    by (simp add: verifyRefreshToken_def jwt_verify_def short_world_def test_lib_def
          admin_token_decode or_default_def truthy_def)
  have g: "verifyRefreshToken short_world ''invalid.token.string''
             = Inl (UnauthorizedException ''Invalid or expired refresh token'')"
    by (simp add: verifyRefreshToken_def jwt_verify_def short_world_def test_lib_def
          garbage_decode or_default_def truthy_def)
  have i: "sub admin_identity = sub \<lparr> sub = ''u1'', email = ''a@x.com'', role = ''admin'',
                                      iat = Some 1, exp = Some (3::int) \<rparr>
           \<and> email admin_identity = email \<lparr> sub = ''u1'', email = ''a@x.com'', role = ''admin'',
                                      iat = Some 1, exp = Some (3::int) \<rparr>
           \<and> role admin_identity = role \<lparr> sub = ''u1'', email = ''a@x.com'', role = ''admin'',
                                      iat = Some 1, exp = Some (3::int) \<rparr>"
    by (simp add: admin_identity_def)
  show ?thesis
    using refreshTokens_reissues [OF short_world_spans, of admin_token test_database,
            THEN conjunct1]
          refreshTokens_reissues [OF short_world_spans, of "''invalid.token.string''"
            test_database, THEN conjunct2]
          v g i
    by blast
qed


section \<open>Queries and look-ups\<close>

lemmas run_defs = andThen_def tryCatch_def ret_def throw_def reading_def

lemma next_fault_run: "next_fault w = (Inr (head_fault w), after_query w)"
  by (cases "faults (database w)") (auto simp: next_fault_def head_fault_def after_query_def)

lemma query_run:
  "query run w =
     (case head_fault w of
        Some code \<Rightarrow> (Inl (PrismaClientError code), after_query w)
      | None \<Rightarrow> run (after_query w))"
  by (simp add: query_def andThen_def next_fault_run throw_def split: option.splits)

lemma after_query_simps [simp]:
  "lib (after_query w) = lib w" "config (after_query w) = config w"
  "clock (after_query w) = clock w" "rng (after_query w) = rng w"
  "users_table (database (after_query w)) = users_table (database w)"
  "profiles_table (database (after_query w)) = profiles_table (database w)"
  "users_email_unique (database (after_query w)) = users_email_unique (database w)"
  "faults (database (after_query w)) = tl (faults (database w))"
  by (simp_all add: after_query_def)

lemma findByEmail_run:
  "findByEmail e w =
     (Inr (case head_fault w of Some code \<Rightarrow> None | None \<Rightarrow> profile_of w e), after_query w)"
  by (simp add: findByEmail_def tryCatch_def profiles_findUnique_def query_run ret_def
        profile_of_def split: option.splits)

lemma findById_run:
  "findById i w =
     (Inr (case head_fault w of
             Some code \<Rightarrow> None
           | None \<Rightarrow> find (\<lambda>p. profile_id p = i) (profiles_table (database w))),
      after_query w)"
  by (simp add: findById_def tryCatch_def profiles_findUnique_def query_run ret_def
        split: option.splits)

lemma users_findFirst_run:
  "users_findFirst e w =
     (case head_fault w of
        Some code \<Rightarrow> Inl (PrismaClientError code)
      | None \<Rightarrow> Inr (credentials_of w e), after_query w)"
  by (simp add: users_findFirst_def query_run credentials_of_def split: option.splits)

lemma users_create_run:
  "users_create row w =
     (case head_fault w of
        Some code \<Rightarrow> (Inl (PrismaClientError code), after_query w)
      | None \<Rightarrow>
          if (\<exists>u \<in> set (users_table (database w)).
                auth_id u = auth_id row
                \<or> (users_email_unique (database w) \<and> auth_email u \<noteq> None
                    \<and> auth_email u = auth_email row))
          then (Inl (PrismaClientError ''P2002''), after_query w)
          else (Inr row,
                (after_query w)\<lparr> database :=
                   (database (after_query w))\<lparr> users_table := users_table (database w) @ [row] \<rparr> \<rparr>))"
  by (simp add: users_create_def query_run Let_def split: option.splits)

lemma profiles_create_run:
  "profiles_create row w =
     (case head_fault w of
        Some code \<Rightarrow> (Inl (PrismaClientError code), after_query w)
      | None \<Rightarrow>
          if (\<exists>p \<in> set (profiles_table (database w)).
                profile_id p = profile_id row \<or> profile_email p = profile_email row)
          then (Inl (PrismaClientError ''P2002''), after_query w)
          else (Inr row,
                (after_query w)\<lparr> database :=
                   (database (after_query w))\<lparr> profiles_table :=
                      profiles_table (database w) @ [row] \<rparr> \<rparr>))"
  by (simp add: profiles_create_def query_run Let_def split: option.splits)

lemma hashPassword_run:
  "hashPassword p w =
     (case bcrypt_hash (lib w) (rng w) p 12 of
        None \<Rightarrow> Inl (Error ''Password hashing failed'')
      | Some h \<Rightarrow> Inr h, w\<lparr> rng := rng w + 1 \<rparr>)"
  by (simp add: hashPassword_def split: option.splits)

lemma register_try_failed_lookup:
  assumes "isValid (validatePasswordStrength (reg_password dto))"
      and "head_fault w \<noteq> None"
  shows "register_try dto w = register_create dto (after_query w)"
  using assms
  by (auto simp add: register_try_def Let_def andThen_def findByEmail_run)

text \<open>
  Claim C10.  \<open>findByEmail\<close> and \<open>findById\<close> never throw.  Each resolves to the row the
  store holds (or \<open>null\<close> when it holds none) when the query runs, and to \<open>null\<close>
  when the query fails, whatever the error.  In \<open>register\<close>, a request with a valid
  password whose duplicate check meets a failing query goes on to create the account,
  as it does when no profile exists.
\<close>

theorem lookups_never_throw:
  "fst (findByEmail e w)
     = Inr (case head_fault w of Some code \<Rightarrow> None | None \<Rightarrow> profile_of w e)
   \<and> fst (findById i w)
     = Inr (case head_fault w of
              Some code \<Rightarrow> None
            | None \<Rightarrow> find (\<lambda>p. profile_id p = i) (profiles_table (database w)))
   \<and> (head_fault w \<noteq> None \<and> isValid (validatePasswordStrength (reg_password dto))
        \<longrightarrow> register_try dto w = register_create dto (after_query w))"
  by (simp add: findByEmail_run findById_run register_try_failed_lookup)

theorem lookups_never_throw_witness:
  "profile_of faulty_world ''a@x.com'' = Some test_profile
   \<and> fst (findByEmail ''a@x.com'' faulty_world) = Inr None
   \<and> fst (findById ''p1'' faulty_world) = Inr None
   \<and> fst (findByEmail ''a@x.com'' test_world) = Inr (Some test_profile)
   \<and> register_try strong_registration faulty_world
       = register_create strong_registration (after_query faulty_world)"
proof -
  have f: "head_fault faulty_world = Some ''P1001''" "head_fault test_world = None"
    by (simp_all add: head_fault_def faulty_world_def test_world_def test_database_def)
  have p: "profile_of faulty_world ''a@x.com'' = Some test_profile"
    "profile_of test_world ''a@x.com'' = Some test_profile"
    by (simp_all add: profile_of_def faulty_world_def test_world_def test_database_def
          test_profile_def)
  have v: "isValid (validatePasswordStrength (reg_password strong_registration))"
    by code_simp
  show ?thesis
    using lookups_never_throw [of "''a@x.com''" faulty_world "''p1''" strong_registration]
          lookups_never_throw [of "''a@x.com''" test_world "''p1''" strong_registration]
          f p v
    by simp
qed


section \<open>Login\<close>

lemma password_matches_after_query [simp]:
  "password_matches (after_query w) e p = password_matches w e p"
  by (simp add: password_matches_def credentials_of_def split: option.splits)

text \<open>\<open>validateUser\<close> resolves to \<open>null\<close> unless the password is the right one.\<close>

lemma validateUser_no_match:
  assumes "\<not> password_matches w e password"
  shows "fst (validateUser e password w) = Inr None"
  using assms
  by (auto simp: validateUser_def run_defs comparePasswords_def findByEmail_run
        users_findFirst_run password_matches_def credentials_of_def truthy_def
      split: option.splits sum.splits prod.splits if_splits)

lemma login_unregistered:
  assumes "profile_of w (login_email dto) = None"
  shows "fst (login dto w) = Inl (UnauthorizedException ''Invalid credentials'')"
  using assms
  by (simp add: login_def run_defs findByEmail_run Let_def split: option.splits)

lemma login_wrong_password:
  assumes "\<not> password_matches w (login_email dto) (login_password dto)"
  shows "fst (login dto w) = Inl (UnauthorizedException ''Invalid credentials'')"
proof -
  have v: "fst (validateUser (login_email dto) (login_password dto) (after_query w)) = Inr None"
    using assms by (intro validateUser_no_match) simp
  show ?thesis
    using v
    by (auto simp add: login_def run_defs findByEmail_run Let_def
        split: option.splits prod.splits sum.splits)
qed

text \<open>
  Claim C3.  A login with a registered email and a wrong password, and a login with an
  email that was never registered (with any password), both fail with the same error,
  the \<open>UnauthorizedException\<close> with the message \<open>Invalid credentials\<close>: the two errors are
  equal, so the error does not tell whether the email exists.
\<close>

theorem login_failure_indistinguishable:
  assumes registered: "profile_of w1 (login_email d1) \<noteq> None"
      and wrong: "\<not> password_matches w1 (login_email d1) (login_password d1)"
      and unregistered: "profile_of w2 (login_email d2) = None"
  shows "fst (login d1 w1) = Inl (UnauthorizedException ''Invalid credentials'')
         \<and> fst (login d2 w2) = Inl (UnauthorizedException ''Invalid credentials'')
         \<and> fst (login d1 w1) = fst (login d2 w2)"
  using login_wrong_password [OF wrong] login_unregistered [OF unregistered] by simp

theorem login_failure_indistinguishable_witness:
  "fst (login \<lparr> login_email = ''a@x.com'', login_password = ''wrong'' \<rparr> test_world)
     = Inl (UnauthorizedException ''Invalid credentials'')
   \<and> fst (login \<lparr> login_email = ''nobody@x.com'', login_password = ''Str0ng!Pw'' \<rparr> test_world)
     = Inl (UnauthorizedException ''Invalid credentials'')"
proof -
  have r: "profile_of test_world
             (login_email \<lparr> login_email = ''a@x.com'', login_password = ''wrong'' \<rparr>) \<noteq> None"
    by code_simp
  have p: "\<not> password_matches test_world
             (login_email \<lparr> login_email = ''a@x.com'', login_password = ''wrong'' \<rparr>)
             (login_password \<lparr> login_email = ''a@x.com'', login_password = ''wrong'' \<rparr>)"
    by code_simp
  have u: "profile_of test_world
             (login_email \<lparr> login_email = ''nobody@x.com'', login_password = ''Str0ng!Pw'' \<rparr>)
           = None"
    by code_simp
  show ?thesis
    using login_failure_indistinguishable [OF r p u] by blast
qed


section \<open>Registration\<close>

lemma andThen_Inr:
  assumes "andThen m f w = (Inr y, w'')"
  obtains x w' where "m w = (Inr x, w')" "f x w' = (Inr y, w'')"
  using assms by (auto simp: andThen_def split: prod.splits sum.splits)

lemma register_weak:
  assumes "\<not> isValid (validatePasswordStrength (reg_password dto))"
  shows "register dto w =
           (Inl (BadRequestException ''Password does not meet strength requirements''
                   (errors (validatePasswordStrength (reg_password dto)))), w)"
  using assms by (simp add: register_def register_try_def tryCatch_def throw_def Let_def)

lemma register_found:
  assumes "isValid (validatePasswordStrength (reg_password dto))"
      and "fst (findByEmail (reg_email dto) w) = Inr (Some p)"
  shows "register dto w =
           (Inl (ConflictException ''User with this email already exists''), after_query w)"
  using assms
  by (auto simp add: register_def register_try_def tryCatch_def throw_def Let_def andThen_def
        findByEmail_run)

lemma register_ok_checks:
  assumes "fst (register dto w) = Inr resp"
  shows "isValid (validatePasswordStrength (reg_password dto))
         \<and> fst (findByEmail (reg_email dto) w) = Inr None
         \<and> register_create dto (after_query w) = (Inr resp, snd (register dto w))"
  using assms
  by (auto simp add: register_def register_try_def tryCatch_def throw_def Let_def andThen_def
        findByEmail_run split: option.splits if_splits prod.splits sum.splits)

lemma UsersService_create_ok:
  assumes "fst (UsersService_create d w) = Inr p"
  shows "p = \<lparr> profile_id = new_id d, profile_email = new_email d,
               profile_role = Some (case new_role d of None \<Rightarrow> customer | Some r \<Rightarrow> r),
               full_name = Some (new_full_name d), avatar_url = None,
               updated_at = Some (clock w) \<rparr>
         \<and> profiles_table (database (snd (UsersService_create d w)))
             = profiles_table (database w) @ [p]
         \<and> users_table (database (snd (UsersService_create d w))) = users_table (database w)
         \<and> lib (snd (UsersService_create d w)) = lib w
         \<and> config (snd (UsersService_create d w)) = config w
         \<and> clock (snd (UsersService_create d w)) = clock w"
  using assms
  by (auto simp add: UsersService_create_def run_defs findByEmail_run profiles_create_run
      split: option.splits if_splits prod.splits sum.splits)

text \<open>What a successful run of the second part of \<open>register\<close> has done.\<close>

lemma register_create_ok:
  assumes ok: "register_create dto w = (Inr resp, w')"
  shows "\<exists>h. bcrypt_hash (lib w) (rng w) (reg_password dto) 12 = Some h
           \<and> users_table (database w') = users_table (database w) @ [new_user_row w dto h]
           \<and> profiles_table (database w') = profiles_table (database w) @ [new_profile_row w dto]
           \<and> generateTokens w
                \<lparr> sub = uuid_of (lib w) (rng w + 1), email = reg_email dto,
                  role = ''customer'', iat = None, exp = None \<rparr>
               = Inr \<lparr> access_token = access_token resp, refresh_token = refresh_token resp \<rparr>"
proof -
  from ok obtain h w1 where
    s1: "hashPassword (reg_password dto) w = (Inr h, w1)" and
    r1: "andThen randomUUID (\<lambda>userId.
     andThen (\<lambda>w. users_create
                \<lparr> auth_id = userId,
                  auth_email = Some (reg_email dto),
                  encrypted_password = Some h,
                  email_confirmed_at = Some (clock w),
                  created_at = Some (clock w),
                  auth_updated_at = Some (clock w) \<rparr> w) (\<lambda>_.
     andThen (UsersService_create
                \<lparr> new_id = userId,
                  new_email = reg_email dto,
                  new_full_name = reg_full_name dto,
                  new_role = Some customer \<rparr>) (\<lambda>u.
     andThen (reading (\<lambda>w. generateTokens w
                \<lparr> sub = profile_id u,
                  email = profile_email u,
                  role = role_or_customer (profile_role u),
                  iat = None, exp = None \<rparr>)) (\<lambda>tokens.
     ret (auth_response u tokens))))) w1 = (Inr resp, w')"
    unfolding register_create_def by (rule andThen_Inr)
  have hash: "bcrypt_hash (lib w) (rng w) (reg_password dto) 12 = Some h"
    and w1: "w1 = w\<lparr> rng := rng w + 1 \<rparr>"
    using s1 by (auto simp: hashPassword_run split: option.splits)
  define uid where "uid = uuid_of (lib w) (rng w + 1)"
  define w2 where "w2 = w1\<lparr> rng := rng w1 + 1 \<rparr>"
  have u: "randomUUID w1 = (Inr uid, w2)"
    by (simp add: randomUUID_def uid_def w2_def w1)
  from r1 obtain x w2' where u': "randomUUID w1 = (Inr x, w2')" and
    r2: "andThen (\<lambda>w. users_create
                \<lparr> auth_id = x,
                  auth_email = Some (reg_email dto),
                  encrypted_password = Some h,
                  email_confirmed_at = Some (clock w),
                  created_at = Some (clock w),
                  auth_updated_at = Some (clock w) \<rparr> w) (\<lambda>_.
     andThen (UsersService_create
                \<lparr> new_id = x,
                  new_email = reg_email dto,
                  new_full_name = reg_full_name dto,
                  new_role = Some customer \<rparr>) (\<lambda>u.
     andThen (reading (\<lambda>w. generateTokens w
                \<lparr> sub = profile_id u,
                  email = profile_email u,
                  role = role_or_customer (profile_role u),
                  iat = None, exp = None \<rparr>)) (\<lambda>tokens.
     ret (auth_response u tokens)))) w2' = (Inr resp, w')"
    by (rule andThen_Inr)
  from u u' have x: "x = uid" and w2': "w2' = w2" by simp_all
  from r2 [unfolded x w2'] obtain row w3 where
    s3: "users_create
                \<lparr> auth_id = uid,
                  auth_email = Some (reg_email dto),
                  encrypted_password = Some h,
                  email_confirmed_at = Some (clock w2),
                  created_at = Some (clock w2),
                  auth_updated_at = Some (clock w2) \<rparr> w2 = (Inr row, w3)" and
    r3: "andThen (UsersService_create
                \<lparr> new_id = uid,
                  new_email = reg_email dto,
                  new_full_name = reg_full_name dto,
                  new_role = Some customer \<rparr>) (\<lambda>u.
     andThen (reading (\<lambda>w. generateTokens w
                \<lparr> sub = profile_id u,
                  email = profile_email u,
                  role = role_or_customer (profile_role u),
                  iat = None, exp = None \<rparr>)) (\<lambda>tokens.
     ret (auth_response u tokens))) w3 = (Inr resp, w')"
    by (rule andThen_Inr)
  have c2: "clock w2 = clock w" "lib w2 = lib w" "config w2 = config w"
    "database w2 = database w"
    by (simp_all add: w2_def w1)
  have w3: "users_table (database w3) = users_table (database w) @ [new_user_row w dto h]"
    "profiles_table (database w3) = profiles_table (database w)"
    "lib w3 = lib w" "config w3 = config w" "clock w3 = clock w"
    using s3 c2
    by (auto simp: users_create_run new_user_row_def uid_def head_fault_def
          split: option.splits if_splits)
  from r3 obtain p w4 where
    s4: "UsersService_create
                \<lparr> new_id = uid,
                  new_email = reg_email dto,
                  new_full_name = reg_full_name dto,
                  new_role = Some customer \<rparr> w3 = (Inr p, w4)" and
    r4: "andThen (reading (\<lambda>w. generateTokens w
                \<lparr> sub = profile_id p,
                  email = profile_email p,
                  role = role_or_customer (profile_role p),
                  iat = None, exp = None \<rparr>)) (\<lambda>tokens.
     ret (auth_response p tokens)) w4 = (Inr resp, w')"
    by (rule andThen_Inr)
  have p: "p = new_profile_row w dto"
    and w4: "profiles_table (database w4) = profiles_table (database w) @ [new_profile_row w dto]"
      "users_table (database w4) = users_table (database w) @ [new_user_row w dto h]"
      "lib w4 = lib w" "config w4 = config w" "clock w4 = clock w"
    using UsersService_create_ok
            [of "\<lparr> new_id = uid, new_email = reg_email dto,
                   new_full_name = reg_full_name dto, new_role = Some customer \<rparr>" w3 p]
          s4 w3
    by (simp_all add: new_profile_row_def uid_def)
  from r4 obtain tokens where
    g: "generateTokens w4
                \<lparr> sub = profile_id p,
                  email = profile_email p,
                  role = role_or_customer (profile_role p),
                  iat = None, exp = None \<rparr> = Inr tokens"
    and resp: "resp = auth_response p tokens" and w': "w' = w4"
    by (auto simp: andThen_def reading_def ret_def split: sum.splits)
  have g': "generateTokens w
                \<lparr> sub = uuid_of (lib w) (rng w + 1), email = reg_email dto,
                  role = ''customer'', iat = None, exp = None \<rparr> = Inr tokens"
    using g generateTokens_same_env [OF w4(3-5)]
    by (simp add: p new_profile_row_def role_or_customer_def)
  show ?thesis
    using hash w4 g'
    by (simp add: w' resp auth_response_def)
qed

lemma new_rows_after_query [simp]:
  "new_user_row (after_query w) dto h = new_user_row w dto h"
  "new_profile_row (after_query w) dto = new_profile_row w dto"
  by (simp_all add: new_user_row_def new_profile_row_def)

text \<open>
  Claim C6, as stated, fails in its second part: when the query of the duplicate check
  fails, \<open>findByEmail\<close> answers \<open>null\<close> although the email has a profile, and
  \<open>register\<close> goes on.  It writes a row into \<open>auth.users\<close> before the profile service
  finds the existing profile and the request fails with the \<open>ConflictException\<close>.
  This happens in a store that lets two credential rows share an email, and also in one
  that does not, when no credential row carries the email of the profile.
\<close>

theorem register_write_after_failed_lookup:
  "profile_of faulty_world (reg_email strong_registration) = Some test_profile
   \<and> fst (register strong_registration faulty_world)
       = Inl (ConflictException ''User with this email already exists'')
   \<and> users_table (database faulty_world) = [test_user]
   \<and> users_table (database (snd (register strong_registration faulty_world)))
       = [test_user,
          \<lparr> auth_id = ''uu'', auth_email = Some ''a@x.com'',
            encrypted_password = Some ''$2b$Str0ng!Pw'', email_confirmed_at = Some 1000,
            created_at = Some 1000, auth_updated_at = Some 1000 \<rparr>]
   \<and> profile_of strict_faulty_world (reg_email strong_registration) = Some test_profile
   \<and> fst (register strong_registration strict_faulty_world)
       = Inl (ConflictException ''User with this email already exists'')
   \<and> length (users_table (database strict_faulty_world)) = 1
   \<and> length (users_table (database (snd (register strong_registration strict_faulty_world))))
       = 2"
  by code_simp

text \<open>
  Claim C6, amended.  A request whose password fails the strength check fails with the
  \<open>BadRequestException\<close> that carries every violated rule, and the world is left as it
  was.  A request with a valid password whose duplicate look-up returns an existing
  profile fails with the \<open>ConflictException\<close>, and neither table is written.  And a
  registration succeeds only when the password is valid and the look-up returned no
  profile; it has then hashed the password, appended the credential row with the hash to
  \<open>auth.users\<close> and the profile with the role \<open>customer\<close> to \<open>profiles\<close>, and returned
  the token pair issued for the new identity.
\<close>

theorem register_checks_before_writes:
  "(\<not> isValid (validatePasswordStrength (reg_password dto)) \<longrightarrow>
      register dto w =
        (Inl (BadRequestException ''Password does not meet strength requirements''
                (errors (validatePasswordStrength (reg_password dto)))), w))
   \<and> (\<forall>p. isValid (validatePasswordStrength (reg_password dto))
          \<and> fst (findByEmail (reg_email dto) w) = Inr (Some p) \<longrightarrow>
        fst (register dto w) = Inl (ConflictException ''User with this email already exists'')
        \<and> users_table (database (snd (register dto w))) = users_table (database w)
        \<and> profiles_table (database (snd (register dto w))) = profiles_table (database w))
   \<and> (\<forall>resp. fst (register dto w) = Inr resp \<longrightarrow>
        isValid (validatePasswordStrength (reg_password dto))
        \<and> fst (findByEmail (reg_email dto) w) = Inr None
        \<and> (\<exists>h. bcrypt_hash (lib w) (rng w) (reg_password dto) 12 = Some h
              \<and> users_table (database (snd (register dto w)))
                  = users_table (database w) @ [new_user_row w dto h]
              \<and> profiles_table (database (snd (register dto w)))
                  = profiles_table (database w) @ [new_profile_row w dto]
              \<and> profile_role (new_profile_row w dto) = Some customer
              \<and> generateTokens w
                   \<lparr> sub = profile_id (new_profile_row w dto), email = reg_email dto,
                     role = ''customer'', iat = None, exp = None \<rparr>
                  = Inr \<lparr> access_token = access_token resp,
                          refresh_token = refresh_token resp \<rparr>))"
proof (intro conjI allI impI)
  assume "\<not> isValid (validatePasswordStrength (reg_password dto))"
  then show "register dto w =
        (Inl (BadRequestException ''Password does not meet strength requirements''
                (errors (validatePasswordStrength (reg_password dto)))), w)"
    by (rule register_weak)
next
  fix p
  assume a: "isValid (validatePasswordStrength (reg_password dto))
          \<and> fst (findByEmail (reg_email dto) w) = Inr (Some p)"
  then have r: "register dto w =
           (Inl (ConflictException ''User with this email already exists''), after_query w)"
    using register_found by blast
  show "fst (register dto w) = Inl (ConflictException ''User with this email already exists'')"
    "users_table (database (snd (register dto w))) = users_table (database w)"
    "profiles_table (database (snd (register dto w))) = profiles_table (database w)"
    by (simp_all add: r)
next
  fix resp
  assume a: "fst (register dto w) = Inr resp"
  note c = register_ok_checks [OF a]
  show "isValid (validatePasswordStrength (reg_password dto))"
    "fst (findByEmail (reg_email dto) w) = Inr None"
    using c by simp_all
  from c have "register_create dto (after_query w) = (Inr resp, snd (register dto w))"
    by simp
  from register_create_ok [OF this]
  show "\<exists>h. bcrypt_hash (lib w) (rng w) (reg_password dto) 12 = Some h
              \<and> users_table (database (snd (register dto w)))
                  = users_table (database w) @ [new_user_row w dto h]
              \<and> profiles_table (database (snd (register dto w)))
                  = profiles_table (database w) @ [new_profile_row w dto]
              \<and> profile_role (new_profile_row w dto) = Some customer
              \<and> generateTokens w
                   \<lparr> sub = profile_id (new_profile_row w dto), email = reg_email dto,
                     role = ''customer'', iat = None, exp = None \<rparr>
                  = Inr \<lparr> access_token = access_token resp,
                          refresh_token = refresh_token resp \<rparr>"
    by (simp add: generateTokens_same_env [of "after_query w" w] new_profile_row_def)
qed


theorem register_checks_before_writes_witness:
  "register weak_registration test_world
     = (Inl (BadRequestException ''Password does not meet strength requirements''
               (errors (validatePasswordStrength (reg_password weak_registration)))), test_world)
   \<and> fst (register strong_registration test_world)
       = Inl (ConflictException ''User with this email already exists'')
   \<and> users_table (database (snd (register strong_registration test_world)))
       = users_table (database test_world)
   \<and> fst (register new_registration short_world) = Inr new_response
   \<and> profiles_table (database (snd (register new_registration short_world)))
       = profiles_table (database short_world) @ [new_profile_row short_world new_registration]"
proof -
  have weak: "\<not> isValid (validatePasswordStrength (reg_password weak_registration))"
    by code_simp
  have strong: "isValid (validatePasswordStrength (reg_password strong_registration))"
    by code_simp
  have found: "fst (findByEmail (reg_email strong_registration) test_world)
                 = Inr (Some test_profile)"
    by code_simp
  have ok: "fst (register new_registration short_world) = Inr new_response"
    by code_simp
  show ?thesis
    using register_checks_before_writes [of weak_registration test_world, THEN conjunct1]
          register_checks_before_writes [of strong_registration test_world,
            THEN conjunct2, THEN conjunct1]
          register_checks_before_writes [of new_registration short_world,
            THEN conjunct2, THEN conjunct2]
          weak strong found ok
    by blast
qed

end
